theory Spec2Isabelle
  imports Complex_Main "HOL-Library.Multiset"
begin

section \<open>JavaScript values\<close>

text \<open>
  The upstream payload is whatever JSON the provider delivers; the TypeScript interface
  \<^verbatim>\<open>GoogleFinanceResponse\<close> is erased at run time. A payload is therefore a dynamically
  typed value. Numbers are modelled as reals (JSON has no NaN); an object is its table of
  own properties, looked up with \<open>map_of\<close>.
\<close>

datatype jsval =
    Undefined
  | Null
  | Bool bool
  | Num real
  | Str string
  | Obj "(string \<times> jsval) list"

datatype js_error = TypeError | NoDataReceived | LookupThrew

text \<open>JavaScript truthiness: the operand test of \<^verbatim>\<open>||\<close>, \<^verbatim>\<open>!\<close> and \<^verbatim>\<open>if\<close>.\<close>

fun truthy :: "jsval \<Rightarrow> bool" where
  "truthy Undefined = False"
| "truthy Null = False"
| "truthy (Bool b) = b"
| "truthy (Num x) = (x \<noteq> 0)"
| "truthy (Str s) = (s \<noteq> [])"
| "truthy (Obj fs) = True"

text \<open>\<^verbatim>\<open>a || b\<close> on values that are already evaluated.\<close>

definition js_or :: "jsval \<Rightarrow> jsval \<Rightarrow> jsval" where
  "js_or a b = (if truthy a then a else b)"

text \<open>
  \<^verbatim>\<open>v.k\<close>: a TypeError on \<^verbatim>\<open>undefined\<close> and \<^verbatim>\<open>null\<close>, the own property of an object
  (\<^verbatim>\<open>undefined\<close> when it has none), and \<^verbatim>\<open>undefined\<close> on a primitive (none of the keys
  read by this program is a built-in property of a boolean, number or string).
\<close>

fun get_prop :: "jsval \<Rightarrow> string \<Rightarrow> js_error + jsval" where
  "get_prop Undefined k = Inl TypeError"
| "get_prop Null k = Inl TypeError"
| "get_prop (Obj fs) k = Inr (case map_of fs k of None \<Rightarrow> Undefined | Some v \<Rightarrow> v)"
| "get_prop v k = Inr Undefined"

text \<open>\<^verbatim>\<open>v?.k\<close>: optional chaining short-circuits to \<^verbatim>\<open>undefined\<close> on a nullish receiver.\<close>

fun opt_chain :: "jsval \<Rightarrow> string \<Rightarrow> js_error + jsval" where
  "opt_chain Undefined k = Inr Undefined"
| "opt_chain Null k = Inr Undefined"
| "opt_chain v k = get_prop v k"

text \<open>Sequencing of computations that may throw: the first exception wins.\<close>

definition thenE :: "js_error + 'a \<Rightarrow> ('a \<Rightarrow> js_error + 'b) \<Rightarrow> js_error + 'b" where
  "thenE m f = (case m of Inl e \<Rightarrow> Inl e | Inr x \<Rightarrow> f x)"

text \<open>
  The property value as the normalizer sees it when no exception is possible:
  \<^verbatim>\<open>undefined\<close> for a missing property and for a receiver without properties.
\<close>

definition field :: "jsval \<Rightarrow> string \<Rightarrow> jsval" where
  "field v k = (case get_prop v k of Inl e \<Rightarrow> Undefined | Inr x \<Rightarrow> x)"

section \<open>The quote record and the response normalizer\<close>

text \<open>
  \<^verbatim>\<open>SerpApiStockData\<close>. The fields hold whatever the payload held, so they are
  \<open>jsval\<close>s; \<open>lastUpdated\<close> is the instant read by \<^verbatim>\<open>new Date()\<close> (milliseconds), its
  ISO rendering is not modelled.
\<close>

record SerpApiStockData =
  symbol :: string
  price :: jsval
  change :: jsval
  changePercent :: jsval
  peRatio :: jsval
  marketCap :: jsval
  earnings :: jsval
  revenue :: jsval
  lastUpdated :: int

text \<open>
  The body of the \<^verbatim>\<open>try\<close> block of \<^verbatim>\<open>parseGoogleFinanceResponse\<close>
  (serpapi-client.ts, lines 164 to 186). \<open>now\<close> is the clock reading of \<^verbatim>\<open>new Date()\<close>.
\<close>

definition parse_try :: "string \<Rightarrow> jsval \<Rightarrow> int \<Rightarrow> js_error + SerpApiStockData option" where
  "parse_try symb response now =
     thenE (get_prop response ''knowledge_graph'') (\<lambda>kg.
     thenE (if truthy kg then Inr kg else get_prop response ''summary'') (\<lambda>data.
     thenE (get_prop response ''financials'') (\<lambda>financials.
       if \<not> truthy data then Inr None
       else
         thenE (get_prop data ''price'') (\<lambda>p.
         thenE (get_prop data ''change'') (\<lambda>c.
         thenE (get_prop data ''change_percent'') (\<lambda>cp.
         thenE (thenE (opt_chain financials ''pe_ratio'')
                  (\<lambda>a. if truthy a then Inr a else get_prop data ''pe_ratio'')) (\<lambda>pe.
         thenE (thenE (opt_chain financials ''market_cap'')
                  (\<lambda>a. if truthy a then Inr a else get_prop data ''market_cap'')) (\<lambda>mc.
         thenE (thenE (opt_chain financials ''net_income'')
                  (\<lambda>a. if truthy a then Inr a else get_prop data ''earnings'')) (\<lambda>ea.
         thenE (thenE (opt_chain financials ''revenue'')
                  (\<lambda>a. if truthy a then Inr a else get_prop data ''revenue'')) (\<lambda>rv.
           Inr (Some \<lparr> symbol = symb,
                       price = js_or p (Num 0),
                       change = js_or c (Num 0),
                       changePercent = js_or cp (Num 0),
                       peRatio = pe,
                       marketCap = mc,
                       earnings = ea,
                       revenue = rv,
                       lastUpdated = now \<rparr>)))))))))))"

text \<open>
  \<^verbatim>\<open>parseGoogleFinanceResponse\<close>: the \<^verbatim>\<open>catch\<close> clause logs the exception and returns
  \<^verbatim>\<open>null\<close>.
\<close>

definition parseGoogleFinanceResponse :: "string \<Rightarrow> jsval \<Rightarrow> int \<Rightarrow> SerpApiStockData option" where
  "parseGoogleFinanceResponse symb response now =
     (case parse_try symb response now of Inl e \<Rightarrow> None | Inr r \<Rightarrow> r)"

text \<open>
  The precedence as the specification words it, for comparison with the code: each of
  price, change and change percent is taken from the detailed shape if the field is
  present there, else from the summary shape if present there, else it is 0.
\<close>

definition spec_per_field :: "jsval \<Rightarrow> string \<Rightarrow> jsval" where
  "spec_per_field response k =
     (if field (field response ''knowledge_graph'') k \<noteq> Undefined
      then field (field response ''knowledge_graph'') k
      else if field (field response ''summary'') k \<noteq> Undefined
      then field (field response ''summary'') k
      else Num 0)"

text \<open>The shape the code selects: \<^verbatim>\<open>response.knowledge_graph || response.summary\<close>.\<close>

definition selected_shape :: "jsval \<Rightarrow> jsval" where
  "selected_shape response =
     js_or (field response ''knowledge_graph'') (field response ''summary'')"

text \<open>
  A response that inhabits the declared interface as far as the normalizer reads it: an
  object whose three blocks are each absent or an object.
\<close>

definition is_block :: "jsval \<Rightarrow> bool" where
  "is_block v = (case v of Undefined \<Rightarrow> True | Obj fs \<Rightarrow> True | _ \<Rightarrow> False)"

definition well_shaped :: "jsval \<Rightarrow> bool" where
  "well_shaped response =
     (case response of
        Obj fs \<Rightarrow> is_block (field response ''knowledge_graph'')
                \<and> is_block (field response ''summary'')
                \<and> is_block (field response ''financials'')
      | _ \<Rightarrow> False)"

section \<open>The freshness cache and the single fetch\<close>

text \<open>The cache of \<^verbatim>\<open>SerpApiClient\<close>: one entry per symbol, a record and the clock reading at
  which it was stored.\<close>

record cache_entry =
  data :: SerpApiStockData
  timestamp :: int

record SerpApiClient =
  apiKey :: string
  cache :: "string \<rightharpoonup> cache_entry"

definition CACHE_DURATION :: int where
  "CACHE_DURATION = 15000"

definition STOCK_SYMBOL_MAPPINGS :: "(string \<times> string) list" where
  "STOCK_SYMBOL_MAPPINGS =
    [(''HDFCBANK.NS'', ''HDFCBANK:NSE''),
     (''BAJFINANCE.NS'', ''BAJFINANCE:NSE''),
     (''ICICIBANK.NS'', ''ICICIBANK:NSE''),
     (''BAJAJ-AUTO.NS'', ''BAJAJ-AUTO:NSE''),
     (''SAVANIFIN.NS'', ''SAVANIFIN:NSE''),
     (''AFFLE.NS'', ''AFFLE:NSE''),
     (''LTIM.NS'', ''LTIM:NSE''),
     (''KPITTECH.NS'', ''KPITTECH:NSE''),
     (''TATATECH.NS'', ''TATATECH:NSE''),
     (''BLSE.NS'', ''BLSE:NSE''),
     (''TANLA.NS'', ''TANLA:NSE''),
     (''DMART.NS'', ''DMART:NSE''),
     (''TATACONSUM.NS'', ''TATACONSUM:NSE''),
     (''PIDILITE.NS'', ''PIDILITE:NSE''),
     (''TATAPOWER.NS'', ''TATAPOWER:NSE''),
     (''KPIGREEN.NS'', ''KPIGREEN:NSE''),
     (''SUZLON.NS'', ''SUZLON:NSE''),
     (''GENSOL.NS'', ''GENSOL:NSE''),
     (''HARIOMPIPE.NS'', ''HARIOMPIPE:NSE''),
     (''ASTRAL.NS'', ''ASTRAL:NSE''),
     (''POLYCAB.NS'', ''POLYCAB:NSE''),
     (''CLEANSCI.NS'', ''CLEANSCI:NSE''),
     (''DEEPAKNTR.NS'', ''DEEPAKNTR:NSE''),
     (''FINEORG.NS'', ''FINEORG:NSE''),
     (''GRAVITA.NS'', ''GRAVITA:NSE''),
     (''SBILIFE.NS'', ''SBILIFE:NSE''),
     (''INFY.NS'', ''INFY:NSE''),
     (''HAPPSTMNDS.NS'', ''HAPPSTMNDS:NSE''),
     (''EASEMYTRIP.NS'', ''EASEMYTRIP:NSE'')]"

text \<open>
  \<^verbatim>\<open>STOCK_SYMBOL_MAPPINGS[symbol] || symbol\<close>. The table is read as its own entries (the
  properties an object literal inherits from its prototype are outside the model).
\<close>

definition googleSymbol :: "string \<Rightarrow> string" where
  "googleSymbol symb =
     (case map_of STOCK_SYMBOL_MAPPINGS symb of
        None \<Rightarrow> symb
      | Some q \<Rightarrow> if q = [] then symb else q)"

text \<open>
  The upstream lookup \<^verbatim>\<open>getJson\<close> is external. What it does to one request is a parameter
  of the model: it either invokes the callback with some value after a latency, or throws
  while the request is being issued. (The library is taken to invoke the callback
  eventually.)
\<close>

datatype lookup = Delivers jsval nat | Throws

fun latency :: "lookup \<Rightarrow> nat" where
  "latency (Delivers j l) = l"
| "latency Throws = 0"

text \<open>
  The promise built at lines 103 to 115: it resolves with a truthy payload and rejects
  with \<^verbatim>\<open>Error('No data received')\<close> on a falsy one; an exception of the executor
  rejects it as well.
\<close>

fun await_lookup :: "lookup \<Rightarrow> js_error + jsval" where
  "await_lookup (Delivers j l) = (if truthy j then Inr j else Inl NoDataReceived)"
| "await_lookup Throws = Inl LookupThrew"

text \<open>
  \<^verbatim>\<open>fetchStockData\<close> runs in two synchronous stretches. The first (lines 95 to 114)
  reads the cache at clock reading \<open>now\<close> and either returns the cached record or sends
  the request.
\<close>

datatype issued = Hit SerpApiStockData | Pending string

definition fetch_begin :: "SerpApiClient \<Rightarrow> int \<Rightarrow> string \<Rightarrow> issued" where
  "fetch_begin c now symb =
     (case cache c symb of
        Some cached \<Rightarrow>
          if now - timestamp cached < CACHE_DURATION then Hit (data cached)
          else Pending (googleSymbol symb)
      | None \<Rightarrow> Pending (googleSymbol symb))"

text \<open>
  The second stretch (lines 117 to 127) runs when the promise settles, at clock reading
  \<open>t\<close>, on the client as it is then: normalize, store on success, return.
\<close>

definition fetch_resume_try ::
  "SerpApiClient \<Rightarrow> int \<Rightarrow> string \<Rightarrow> lookup \<Rightarrow> js_error + (SerpApiStockData option \<times> SerpApiClient)" where
  "fetch_resume_try c t symb lk =
     thenE (await_lookup lk) (\<lambda>response.
       case parseGoogleFinanceResponse symb response t of
         Some stockData \<Rightarrow>
           Inr (Some stockData,
                c\<lparr>cache := (cache c)(symb \<mapsto> \<lparr>data = stockData, timestamp = t\<rparr>)\<rparr>)
       | None \<Rightarrow> Inr (None, c))"

text \<open>The \<^verbatim>\<open>catch\<close> clause (lines 128 to 131): log and return \<^verbatim>\<open>null\<close>.\<close>

definition fetch_resume ::
  "SerpApiClient \<Rightarrow> int \<Rightarrow> string \<Rightarrow> lookup \<Rightarrow> SerpApiStockData option \<times> SerpApiClient" where
  "fetch_resume c t symb lk =
     (case fetch_resume_try c t symb lk of Inl e \<Rightarrow> (None, c) | Inr rc \<Rightarrow> rc)"

text \<open>
  One awaited call of \<^verbatim>\<open>fetchStockData\<close>, with nothing else running in between. The
  result says what was returned, the client afterwards, the queries sent upstream and the
  clock reading at which the call completed.
\<close>

record fetch_result =
  returned :: "SerpApiStockData option"
  client_after :: SerpApiClient
  queries :: "string list"
  finished :: int

definition fetchStockData :: "lookup \<Rightarrow> int \<Rightarrow> SerpApiClient \<Rightarrow> string \<Rightarrow> fetch_result" where
  "fetchStockData lk now c symb =
     (case fetch_begin c now symb of
        Hit d \<Rightarrow> \<lparr>returned = Some d, client_after = c, queries = [], finished = now\<rparr>
      | Pending q \<Rightarrow>
          \<lparr>returned = fst (fetch_resume c (now + int (latency lk)) symb lk),
           client_after = snd (fetch_resume c (now + int (latency lk)) symb lk),
           queries = [q],
           finished = now + int (latency lk)\<rparr>)"

text \<open>\<^verbatim>\<open>getCachedData\<close> (lines 194 to 200): the value read, and the client it leaves.\<close>

definition getCachedData ::
  "int \<Rightarrow> SerpApiClient \<Rightarrow> string \<Rightarrow> SerpApiStockData option \<times> SerpApiClient" where
  "getCachedData now c symb =
     (case cache c symb of
        Some cached \<Rightarrow>
          if now - timestamp cached < CACHE_DURATION * 2 then (Some (data cached), c)
          else (None, c)
      | None \<Rightarrow> (None, c))"

definition clearCache :: "SerpApiClient \<Rightarrow> SerpApiClient" where
  "clearCache c = c\<lparr>cache := Map.empty\<rparr>"

section \<open>The batched fetch\<close>

text \<open>
  \<^verbatim>\<open>fetchMultipleStocks\<close> (lines 134 to 160) starts the fetches of a batch one after the
  other without waiting, so every cache read of the batch happens at the clock reading
  \<open>t0\<close> at which the batch starts and on the client as it is then; each request then
  settles after its own latency, and the rest of the callback runs at that moment. The
  reply to the request for the symbol at input position \<open>n\<close> is \<open>upstream n\<close>.
\<close>

record task =
  t_symbol :: string
  t_issued :: issued
  t_lookup :: lookup

definition start_task :: "(nat \<Rightarrow> lookup) \<Rightarrow> SerpApiClient \<Rightarrow> int \<Rightarrow> nat \<times> string \<Rightarrow> task" where
  "start_task upstream c t0 js =
     \<lparr>t_symbol = snd js, t_issued = fetch_begin c t0 (snd js), t_lookup = upstream (fst js)\<rparr>"

text \<open>When \<^verbatim>\<open>await this.fetchStockData(symbol)\<close> resumes, counted from the batch start.\<close>

definition settles :: "task \<Rightarrow> nat" where
  "settles tk = (case t_issued tk of Hit d \<Rightarrow> 0 | Pending q \<Rightarrow> latency (t_lookup tk))"

text \<open>
  The state of one run: the result map, the client, the clock, and a record of what
  happened: what each individual fetch resolved to, the queries sent upstream, the pacing
  delays requested with \<^verbatim>\<open>setTimeout\<close>, and the batches formed.
\<close>

record run =
  results :: "string \<rightharpoonup> SerpApiStockData"
  client :: SerpApiClient
  clock :: int
  resolved :: "(string \<times> SerpApiStockData option) list"
  sent :: "string list"
  delays :: "nat list"
  batches :: "string list list"

text \<open>
  The rest of the arrow function (lines 143 to 148) for one task: the fetch resolves to
  \<open>d\<close>, a non-null \<open>d\<close> is put into the result map, and the 300 pacing delay is requested.
\<close>

definition complete :: "int \<Rightarrow> task \<Rightarrow> run \<Rightarrow> run" where
  "complete t0 tk st =
     (let rc = (case t_issued tk of
                  Hit d \<Rightarrow> (Some d, client st)
                | Pending q \<Rightarrow>
                    fetch_resume (client st) (t0 + int (settles tk)) (t_symbol tk) (t_lookup tk))
      in st\<lparr>results := (case fst rc of
                           Some d \<Rightarrow> (results st)(t_symbol tk \<mapsto> d)
                         | None \<Rightarrow> results st),
            client := snd rc,
            resolved := resolved st @ [(t_symbol tk, fst rc)],
            delays := delays st @ [300]\<rparr>)"

text \<open>
  One batch: the tasks are started in input order, they complete in the order in which
  they settle (input order among equals), and \<^verbatim>\<open>Promise.all\<close> resolves when the last
  300 delay has run out.
\<close>

definition pending_queries :: "task list \<Rightarrow> string list" where
  "pending_queries tks =
     concat (map (\<lambda>tk. case t_issued tk of Hit d \<Rightarrow> [] | Pending q \<Rightarrow> [q]) tks)"

definition run_batch :: "(nat \<Rightarrow> lookup) \<Rightarrow> nat \<Rightarrow> string list \<Rightarrow> run \<Rightarrow> run" where
  "run_batch upstream i batch st =
     (let t0 = clock st;
          tks = map (start_task upstream (client st) t0) (zip [i ..< i + length batch] batch);
          st1 = st\<lparr>sent := sent st @ pending_queries tks, batches := batches st @ [batch]\<rparr>;
          st2 = fold (complete t0) (sort_key settles tks) st1
      in st2\<lparr>clock := t0 + int (fold max (map (\<lambda>tk. settles tk + 300) tks) 0)\<rparr>)"

definition batchSize :: nat where
  "batchSize = 3"

definition between_batches :: "run \<Rightarrow> run" where
  "between_batches st = st\<lparr>clock := clock st + 1000, delays := delays st @ [1000]\<rparr>"

function fetch_loop :: "(nat \<Rightarrow> lookup) \<Rightarrow> string list \<Rightarrow> nat \<Rightarrow> run \<Rightarrow> run" where
  "fetch_loop upstream symbols i st =
     (if i < length symbols then
        fetch_loop upstream symbols (i + batchSize)
          (if i + batchSize < length symbols
           then between_batches (run_batch upstream i (take batchSize (drop i symbols)) st)
           else run_batch upstream i (take batchSize (drop i symbols)) st)
      else st)"
  by pat_completeness auto
termination
  by (relation "measure (\<lambda>(upstream, symbols, i, st). length symbols - i)")
     (auto simp: batchSize_def)

text \<open>The loop equation is applied by hand, one turn at a time.\<close>

declare fetch_loop.simps [simp del]

definition fetchMultipleStocks :: "(nat \<Rightarrow> lookup) \<Rightarrow> int \<Rightarrow> SerpApiClient \<Rightarrow> string list \<Rightarrow> run" where
  "fetchMultipleStocks upstream now c symbols =
     fetch_loop upstream symbols 0
       \<lparr>results = Map.empty, client = c, clock = now,
        resolved = [], sent = [], delays = [], batches = []\<rparr>"

section \<open>The fallback synthesizer\<close>

definition basePrices :: "(string \<times> real) list" where
  "basePrices =
    [(''HDFCBANK.NS'', 1770),
     (''BAJFINANCE.NS'', 6500),
     (''ICICIBANK.NS'', 1200),
     (''BAJAJ-AUTO.NS'', 9500),
     (''SAVANIFIN.NS'', 180),
     (''AFFLE.NS'', 1200),
     (''LTIM.NS'', 5800),
     (''KPITTECH.NS'', 1800),
     (''TATATECH.NS'', 900),
     (''BLSE.NS'', 90),
     (''TANLA.NS'', 480),
     (''DMART.NS'', 3500),
     (''TATACONSUM.NS'', 850),
     (''PIDILITE.NS'', 2800),
     (''TATAPOWER.NS'', 350),
     (''KPIGREEN.NS'', 200),
     (''SUZLON.NS'', 45),
     (''GENSOL.NS'', 150),
     (''HARIOMPIPE.NS'', 250),
     (''ASTRAL.NS'', 2200),
     (''POLYCAB.NS'', 4500),
     (''CLEANSCI.NS'', 1650),
     (''DEEPAKNTR.NS'', 2650),
     (''FINEORG.NS'', 5200),
     (''GRAVITA.NS'', 1450),
     (''SBILIFE.NS'', 1580),
     (''INFY.NS'', 1450),
     (''HAPPSTMNDS.NS'', 920),
     (''EASEMYTRIP.NS'', 38)]"

text \<open>\<^verbatim>\<open>basePrices[symbol] || 1000\<close>, the table read as its own entries.\<close>

definition basePrice :: "string \<Rightarrow> real" where
  "basePrice symb =
     (case map_of basePrices symb of
        None \<Rightarrow> 1000
      | Some b \<Rightarrow> if b = 0 then 1000 else b)"

text \<open>\<^verbatim>\<open>Math.round\<close>: the nearest integer, a half rounding up.\<close>

definition Math_round :: "real \<Rightarrow> real" where
  "Math_round x = of_int \<lfloor>x + 1 / 2\<rfloor>"

text \<open>\<^verbatim>\<open>String.prototype.includes\<close>: the second string occurs in the first.\<close>

fun str_includes :: "string \<Rightarrow> string \<Rightarrow> bool" where
  "str_includes [] sub = (sub = [])"
| "str_includes (c # cs) sub = (take (length sub) (c # cs) = sub \<or> str_includes cs sub)"

text \<open>Decimal digits of a natural number, and \<^verbatim>\<open>toFixed(0)\<close> on magnitudes below 1e21.\<close>

fun digits :: "nat \<Rightarrow> string" where
  "digits n =
     (if n < 10 then [char_of (48 + n)]
      else digits (n div 10) @ [char_of (48 + n mod 10)])"

definition toFixed0 :: "real \<Rightarrow> string" where
  "toFixed0 x =
     (if x < 0 then ''-'' @ digits (nat \<lfloor>- x + 1 / 2\<rfloor>)
      else digits (nat \<lfloor>x + 1 / 2\<rfloor>))"

text \<open>The rupee sign, as its three UTF-8 bytes.\<close>

definition rupee :: string where
  "rupee = [char_of (226::nat), char_of (130::nat), char_of (185::nat)]"

definition crore :: "real \<Rightarrow> jsval" where
  "crore x = Str (rupee @ toFixed0 x @ '' Cr'')"

text \<open>
  \<^verbatim>\<open>getFallbackStockData\<close> (lines 253 to 283). \<open>rnd n\<close> is what the \<open>n\<close>-th call of
  \<^verbatim>\<open>Math.random()\<close> in this invocation returns (counted from 0), \<open>now\<close> the clock
  reading. Arithmetic is exact.
\<close>

definition is_tech :: "string \<Rightarrow> bool" where
  "is_tech symb = (str_includes symb ''TECH'' \<or> str_includes symb ''INFY'' \<or> str_includes symb ''LTIM'')"

definition is_bank :: "string \<Rightarrow> bool" where
  "is_bank symb = (str_includes symb ''BANK'' \<or> str_includes symb ''FINANCE'')"

definition trend :: "(nat \<Rightarrow> real) \<Rightarrow> real" where
  "trend rnd = (rnd 0 - 0.5) * 0.02"

definition randomComponent :: "(nat \<Rightarrow> real) \<Rightarrow> real" where
  "randomComponent rnd = (rnd 1 - 0.5) * 0.03"

definition newPrice :: "(nat \<Rightarrow> real) \<Rightarrow> string \<Rightarrow> real" where
  "newPrice rnd symb =
     max (basePrice symb + basePrice symb * (trend rnd + randomComponent rnd))
         (basePrice symb * 0.5)"

definition raw_peRatio :: "(nat \<Rightarrow> real) \<Rightarrow> string \<Rightarrow> real" where
  "raw_peRatio rnd symb =
     (if is_tech symb then 20 + rnd 3 * 15
      else if is_bank symb then 10 + rnd 3 * 15
      else 15 + rnd 2 * 25)"

text \<open>How many draws precede the three presentation strings.\<close>

definition draws_before_strings :: "string \<Rightarrow> nat" where
  "draws_before_strings symb = (if is_tech symb \<or> is_bank symb then 4 else 3)"

definition getFallbackStockData :: "(nat \<Rightarrow> real) \<Rightarrow> int \<Rightarrow> string \<Rightarrow> SerpApiStockData" where
  "getFallbackStockData rnd now symb =
     \<lparr> symbol = symb,
       price = Num (Math_round (newPrice rnd symb * 100) / 100),
       change = Num (Math_round ((newPrice rnd symb - basePrice symb) * 100) / 100),
       changePercent =
         Num (Math_round ((newPrice rnd symb - basePrice symb) / basePrice symb * 100 * 100) / 100),
       peRatio = Num (Math_round (raw_peRatio rnd symb * 10) / 10),
       marketCap = crore (rnd (draws_before_strings symb) * 100000 + 10000),
       earnings = crore (rnd (draws_before_strings symb + 1) * 5000 + 500),
       revenue = crore (rnd (draws_before_strings symb + 2) * 20000 + 2000),
       lastUpdated = now \<rparr>"

text \<open>Fixed inputs used in the examples below.\<close>

definition steady :: "real \<Rightarrow> nat \<Rightarrow> real" where
  "steady r n = r"

definition sample_quote :: SerpApiStockData where
  "sample_quote =
     \<lparr> symbol = ''INFY.NS'', price = Num 1450, change = Num 5, changePercent = Num 0.35,
       peRatio = Num 24, marketCap = Undefined, earnings = Undefined, revenue = Undefined,
       lastUpdated = 0 \<rparr>"

definition sample_client :: SerpApiClient where
  "sample_client =
     \<lparr> apiKey = ''demo_key'',
       cache = [''INFY.NS'' \<mapsto> \<lparr>data = sample_quote, timestamp = 0\<rparr>] \<rparr>"

definition empty_client :: SerpApiClient where
  "empty_client = \<lparr> apiKey = ''demo_key'', cache = Map.empty \<rparr>"

definition sample_payload :: jsval where
  "sample_payload =
     Obj [(''summary'', Obj [(''price'', Num 1800), (''change'', Num 10),
                             (''change_percent'', Num 0.56)])]"


text \<open>Two upstreams for the examples: one that answers every request after 50, and one
  that answers the first, throws on the second, delivers an empty object to the third and
  null to all later ones.\<close>

definition quick_upstream :: "nat \<Rightarrow> lookup" where
  "quick_upstream n = Delivers sample_payload 50"


section \<open>Facts about the normalizer\<close>

lemma get_prop_truthy: "truthy v \<Longrightarrow> get_prop v k = Inr (field v k)"
  by (cases v) (simp_all add: field_def)

lemma get_prop_Obj: "get_prop (Obj fs) k = Inr (field (Obj fs) k)"
  by (simp add: field_def)

lemma opt_chain_total:
  "opt_chain v k = Inr (field v k)"
  by (cases v) (simp_all add: field_def)

lemma field_nullish [simp]: "field Undefined k = Undefined" "field Null k = Undefined"
  by (simp_all add: field_def)

lemma parse_try_nullish:
  "parse_try symb Undefined now = Inl TypeError" "parse_try symb Null now = Inl TypeError"
  by (simp_all add: parse_try_def thenE_def)

text \<open>The normalizer on any receiver that has properties, in closed form.\<close>

lemma parse_try_closed:
  assumes "response \<noteq> Undefined" "response \<noteq> Null"
  shows "parse_try symb response now =
     Inr (if \<not> truthy (selected_shape response) then None
          else Some \<lparr> symbol = symb,
                 price = js_or (field (selected_shape response) ''price'') (Num 0),
                 change = js_or (field (selected_shape response) ''change'') (Num 0),
                 changePercent = js_or (field (selected_shape response) ''change_percent'') (Num 0),
                 peRatio = js_or (field (field response ''financials'') ''pe_ratio'')
                             (field (selected_shape response) ''pe_ratio''),
                 marketCap = js_or (field (field response ''financials'') ''market_cap'')
                             (field (selected_shape response) ''market_cap''),
                 earnings = js_or (field (field response ''financials'') ''net_income'')
                             (field (selected_shape response) ''earnings''),
                 revenue = js_or (field (field response ''financials'') ''revenue'')
                             (field (selected_shape response) ''revenue''),
                 lastUpdated = now \<rparr>)"
proof -
  have g: "get_prop response k = Inr (field response k)" for k
    using assms by (cases response) (simp_all add: field_def)
  show ?thesis
  proof (cases "truthy (field response ''knowledge_graph'')")
    case True
    then show ?thesis
      by (simp add: parse_try_def thenE_def g get_prop_truthy opt_chain_total
          selected_shape_def js_or_def)
  next
    case kg: False
    show ?thesis
    proof (cases "truthy (field response ''summary'')")
      case True
      with kg show ?thesis
        by (simp add: parse_try_def thenE_def g get_prop_truthy opt_chain_total
            selected_shape_def js_or_def)
    next
      case False
      with kg show ?thesis
        by (simp add: parse_try_def thenE_def g selected_shape_def js_or_def)
    qed
  qed
qed

lemma parse_closed:
  assumes "response \<noteq> Undefined" "response \<noteq> Null"
  shows "parseGoogleFinanceResponse symb response now =
     (if \<not> truthy (selected_shape response) then None
          else Some \<lparr> symbol = symb,
                 price = js_or (field (selected_shape response) ''price'') (Num 0),
                 change = js_or (field (selected_shape response) ''change'') (Num 0),
                 changePercent = js_or (field (selected_shape response) ''change_percent'') (Num 0),
                 peRatio = js_or (field (field response ''financials'') ''pe_ratio'')
                             (field (selected_shape response) ''pe_ratio''),
                 marketCap = js_or (field (field response ''financials'') ''market_cap'')
                             (field (selected_shape response) ''market_cap''),
                 earnings = js_or (field (field response ''financials'') ''net_income'')
                             (field (selected_shape response) ''earnings''),
                 revenue = js_or (field (field response ''financials'') ''revenue'')
                             (field (selected_shape response) ''revenue''),
                 lastUpdated = now \<rparr>)"
  unfolding parseGoogleFinanceResponse_def parse_try_closed [OF assms] by simp

lemma parse_nullish:
  "parseGoogleFinanceResponse symb Undefined now = None"
  "parseGoogleFinanceResponse symb Null now = None"
  by (simp_all add: parseGoogleFinanceResponse_def parse_try_nullish)

lemma field_Obj_Cons:
  "field (Obj ((k', v) # fs)) k = (if k' = k then v else field (Obj fs) k)"
  by (simp add: field_def)

lemma field_Obj_Nil: "field (Obj []) k = Undefined"
  by (simp add: field_def)

lemma field_Obj_absent: "map_of fs k = None \<Longrightarrow> field (Obj fs) k = Undefined"
  by (simp add: field_def)


lemma parse_try_throws_iff:
  "(\<exists>e. parse_try symb response now = Inl e) \<longleftrightarrow> response = Undefined \<or> response = Null"
proof (cases "response = Undefined \<or> response = Null")
  case True
  then show ?thesis by (auto simp: parse_try_nullish)
next
  case False
  then show ?thesis by (simp add: parse_try_closed)
qed

lemma is_block_truthy: "is_block v \<Longrightarrow> truthy v \<longleftrightarrow> v \<noteq> Undefined"
  by (cases v) (simp_all add: is_block_def)


lemma parse_cong:
  assumes "r1 \<noteq> Undefined" "r1 \<noteq> Null" "r2 \<noteq> Undefined" "r2 \<noteq> Null"
    and "truthy (selected_shape r1) \<longleftrightarrow> truthy (selected_shape r2)"
    and "\<And>k. k \<in> {''price'', ''change'', ''change_percent''} \<Longrightarrow>
           js_or (field (selected_shape r1) k) (Num 0) = js_or (field (selected_shape r2) k) (Num 0)"
    and "\<And>k k'. (k, k') \<in> {(''pe_ratio'', ''pe_ratio''), (''market_cap'', ''market_cap''),
                      (''net_income'', ''earnings''), (''revenue'', ''revenue'')} \<Longrightarrow>
           js_or (field (field r1 ''financials'') k) (field (selected_shape r1) k')
         = js_or (field (field r2 ''financials'') k) (field (selected_shape r2) k')"
  shows "parseGoogleFinanceResponse symb r1 now = parseGoogleFinanceResponse symb r2 now"
  using assms(5-) by (simp add: parse_closed [OF assms(1,2)] parse_closed [OF assms(3,4)])

lemma financials_falsy_same:
  assumes "\<not> truthy v" "map_of fs k = None"
  shows "parseGoogleFinanceResponse symb (Obj ((''financials'', Obj ((k, v) # fs)) # rest)) now
       = parseGoogleFinanceResponse symb (Obj ((''financials'', Obj fs) # rest)) now"
proof -
  let ?r1 = "Obj ((''financials'', Obj ((k, v) # fs)) # rest)"
  let ?r2 = "Obj ((''financials'', Obj fs) # rest)"
  have s: "selected_shape ?r1 = selected_shape ?r2"
    by (simp add: selected_shape_def field_Obj_Cons)
  have f: "js_or (field (field ?r1 ''financials'') j) d = js_or (field (field ?r2 ''financials'') j) d"
    for j d
    using assms by (auto simp: field_Obj_Cons field_Obj_absent js_or_def)
  show ?thesis
    by (rule parse_cong) (simp_all add: s f)
qed

lemma shape_zero_same:
  assumes "k \<in> {''price'', ''change'', ''change_percent''}" "map_of ds k = None"
    and "sh \<in> {''knowledge_graph'', ''summary''}"
  shows "parseGoogleFinanceResponse symb (Obj ((sh, Obj ((k, Num 0) # ds)) # rest)) now
       = parseGoogleFinanceResponse symb (Obj ((sh, Obj ds) # rest)) now"
proof -
  let ?r1 = "Obj ((sh, Obj ((k, Num 0) # ds)) # rest)" and ?r2 = "Obj ((sh, Obj ds) # rest)"
  have fin: "field ?r1 ''financials'' = field ?r2 ''financials''"
    using assms(3) by (auto simp: field_Obj_Cons)
  have sel: "selected_shape ?r1 = selected_shape ?r2 \<or>
     (selected_shape ?r1 = Obj ((k, Num 0) # ds) \<and> selected_shape ?r2 = Obj ds)"
    using assms(3) by (auto simp: field_Obj_Cons selected_shape_def js_or_def)
  have z: "js_or (field (Obj ((k, Num 0) # ds)) j) (Num 0) = js_or (field (Obj ds) j) (Num 0)" for j
    using assms(2) by (auto simp: field_Obj_Cons field_Obj_absent js_or_def)
  have o: "j \<in> {''pe_ratio'', ''market_cap'', ''earnings'', ''revenue''} \<Longrightarrow>
       field (Obj ((k, Num 0) # ds)) j = field (Obj ds) j" for j
    using assms(1) by (auto simp: field_Obj_Cons)
  show ?thesis
  proof (rule parse_cong)
    show "truthy (selected_shape ?r1) \<longleftrightarrow> truthy (selected_shape ?r2)"
      using sel by auto
  next
    fix j :: string
    show "js_or (field (selected_shape ?r1) j) (Num 0) = js_or (field (selected_shape ?r2) j) (Num 0)"
      using sel z by auto
  next
    fix j j' :: string
    assume "(j, j') \<in> {(''pe_ratio'', ''pe_ratio''), (''market_cap'', ''market_cap''),
                      (''net_income'', ''earnings''), (''revenue'', ''revenue'')}"
    then have "j' \<in> {''pe_ratio'', ''market_cap'', ''earnings'', ''revenue''}" by auto
    from o [OF this] show "js_or (field (field ?r1 ''financials'') j) (field (selected_shape ?r1) j')
         = js_or (field (field ?r2 ''financials'') j) (field (selected_shape ?r2) j')"
      unfolding fin using sel by auto
  qed simp_all
qed

lemma detailed_suppresses_summary:
  assumes "field (Obj rest) ''knowledge_graph'' = Obj ds"
  shows "parseGoogleFinanceResponse symb (Obj ((''summary'', s) # rest)) now
       = parseGoogleFinanceResponse symb (Obj rest) now"
proof -
  have "selected_shape (Obj ((''summary'', s) # rest)) = Obj ds" "selected_shape (Obj rest) = Obj ds"
    using assms by (simp_all add: selected_shape_def js_or_def field_Obj_Cons)
  then show ?thesis
    by (intro parse_cong) (simp_all add: field_Obj_Cons)
qed

section \<open>Claims about the normalizer\<close>

text \<open>
  C1, as the specification words it, fails on the code. The specification resolves price,
  change and change percent field by field (detailed shape, else summary shape, else 0).
  The code selects one shape first and reads all three fields from it: here the detailed
  shape is present without a price and the summary shape supplies 1800, and the
  normalized price is 0.
\<close>

theorem C1_per_field_counterexample:
  "map_option price
     (parseGoogleFinanceResponse ''HDFCBANK.NS''
        (Obj [(''knowledge_graph'', Obj [(''change'', Num 10)]),
              (''summary'', Obj [(''price'', Num 1800), (''change'', Num 10)])]) 0)
     = Some (Num 0)
   \<and> spec_per_field
        (Obj [(''knowledge_graph'', Obj [(''change'', Num 10)]),
              (''summary'', Obj [(''price'', Num 1800), (''change'', Num 10)])]) ''price''
     = Num 1800"
  by (simp add: parse_closed selected_shape_def js_or_def field_Obj_Cons field_Obj_Nil spec_per_field_def)

text \<open>
  C1, amended: whenever a shape is selected, it is the detailed shape if that is present
  (truthy) and the summary shape otherwise, and each of price, change and change percent
  is the value of that field in the selected shape when it is truthy there, else 0. The
  other shape is never read for these fields.
\<close>

theorem C1_shape_level_precedence:
  assumes "truthy (selected_shape response)"
  shows "selected_shape response =
           (if truthy (field response ''knowledge_graph'') then field response ''knowledge_graph''
            else field response ''summary'')
       \<and> (\<exists>r. parseGoogleFinanceResponse symb response now = Some r
            \<and> price r = (if truthy (field (selected_shape response) ''price'')
                         then field (selected_shape response) ''price'' else Num 0)
            \<and> change r = (if truthy (field (selected_shape response) ''change'')
                         then field (selected_shape response) ''change'' else Num 0)
            \<and> changePercent r = (if truthy (field (selected_shape response) ''change_percent'')
                         then field (selected_shape response) ''change_percent'' else Num 0))"
proof -
  have nn: "response \<noteq> Undefined" "response \<noteq> Null"
    using assms by (auto simp: selected_shape_def js_or_def)
  show ?thesis
    using assms by (simp add: parse_closed [OF nn] js_or_def) (simp add: selected_shape_def js_or_def)
qed

theorem C1_shape_level_precedence_witness:
  "truthy (selected_shape (Obj [(''knowledge_graph'', Obj [(''change'', Num 10)]),
              (''summary'', Obj [(''price'', Num 1800), (''change'', Num 7)])]))
   \<and> map_option price (parseGoogleFinanceResponse ''X''
        (Obj [(''knowledge_graph'', Obj [(''change'', Num 10)]),
              (''summary'', Obj [(''price'', Num 1800), (''change'', Num 7)])]) 5) = Some (Num 0)
   \<and> map_option change (parseGoogleFinanceResponse ''X''
        (Obj [(''knowledge_graph'', Obj [(''change'', Num 10)]),
              (''summary'', Obj [(''price'', Num 1800), (''change'', Num 7)])]) 5) = Some (Num 10)"
  using C1_shape_level_precedence [of "Obj [(''knowledge_graph'', Obj [(''change'', Num 10)]),
              (''summary'', Obj [(''price'', Num 1800), (''change'', Num 7)])]" "''X''" 5]
  by (auto simp: selected_shape_def js_or_def field_Obj_Cons field_Obj_Nil)

text \<open>
  C2: on a response of the declared interface the normalizer returns null exactly when
  neither the detailed nor the summary shape is present (on any input at all, exactly when
  neither property holds a truthy value); on no input does an exception
  leave it (the only throwing inputs are \<^verbatim>\<open>undefined\<close> and \<^verbatim>\<open>null\<close>, and every
  exception of the \<^verbatim>\<open>try\<close> block becomes null); and when the selected shape has a price
  but no change, the result is a record with that price and change 0.
\<close>

theorem C2_null_iff_no_shape:
  "(well_shaped response \<longrightarrow>
      (parseGoogleFinanceResponse symb response now = None
         \<longleftrightarrow> field response ''knowledge_graph'' = Undefined
           \<and> field response ''summary'' = Undefined))
   \<and> (parseGoogleFinanceResponse symb response now = None
         \<longleftrightarrow> \<not> truthy (selected_shape response))
   \<and> ((response = Undefined \<or> response = Null) \<longrightarrow>
         parseGoogleFinanceResponse symb response now = None)
   \<and> (\<forall>e. parse_try symb response now = Inl e \<longrightarrow>
         parseGoogleFinanceResponse symb response now = None)
   \<and> (truthy (selected_shape response)
        \<and> field (selected_shape response) ''change'' = Undefined
        \<and> field (selected_shape response) ''price'' = Num p \<longrightarrow>
        (\<exists>r. parseGoogleFinanceResponse symb response now = Some r
            \<and> change r = Num 0 \<and> price r = Num p))"
proof (intro conjI impI allI)
  assume ws: "well_shaped response"
  then obtain fs where r: "response = Obj fs"
    by (cases response) (simp_all add: well_shaped_def)
  from ws r have b: "is_block (field response ''knowledge_graph'')"
    "is_block (field response ''summary'')"
    by (simp_all add: well_shaped_def)
  have "truthy (selected_shape response) \<longleftrightarrow>
        \<not> (field response ''knowledge_graph'' = Undefined \<and> field response ''summary'' = Undefined)"
    using is_block_truthy [OF b(1)] is_block_truthy [OF b(2)]
    by (auto simp: selected_shape_def js_or_def)
  moreover have "parseGoogleFinanceResponse symb response now = None
        \<longleftrightarrow> \<not> truthy (selected_shape response)"
    using r by (simp add: parse_closed)
  ultimately show "parseGoogleFinanceResponse symb response now = None
         \<longleftrightarrow> field response ''knowledge_graph'' = Undefined
           \<and> field response ''summary'' = Undefined"
    by blast
next
  show "parseGoogleFinanceResponse symb response now = None
         \<longleftrightarrow> \<not> truthy (selected_shape response)"
  proof (cases "response = Undefined \<or> response = Null")
    case True
    then show ?thesis
      by (auto simp: parse_nullish selected_shape_def js_or_def)
  next
    case False
    then show ?thesis by (simp add: parse_closed)
  qed
next
  assume "response = Undefined \<or> response = Null"
  then show "parseGoogleFinanceResponse symb response now = None"
    by (auto simp: parse_nullish)
next
  fix e assume "parse_try symb response now = Inl e"
  then show "parseGoogleFinanceResponse symb response now = None"
    by (simp add: parseGoogleFinanceResponse_def)
next
  assume a: "truthy (selected_shape response)
        \<and> field (selected_shape response) ''change'' = Undefined
        \<and> field (selected_shape response) ''price'' = Num p"
  then have nn: "response \<noteq> Undefined" "response \<noteq> Null"
    by (auto simp: selected_shape_def js_or_def)
  show "\<exists>r. parseGoogleFinanceResponse symb response now = Some r
            \<and> change r = Num 0 \<and> price r = Num p"
    using a by (simp add: parse_closed [OF nn] js_or_def)
qed

theorem C2_null_iff_no_shape_witness:
  "well_shaped (Obj [(''financials'', Obj [(''pe_ratio'', Num 21)])])
   \<and> parseGoogleFinanceResponse ''INFY.NS'' (Obj [(''financials'', Obj [(''pe_ratio'', Num 21)])]) 7 = None
   \<and> parse_try ''INFY.NS'' Null 7 = Inl TypeError
   \<and> parseGoogleFinanceResponse ''INFY.NS'' Null 7 = None
   \<and> truthy (selected_shape (Obj [(''summary'', Obj [(''price'', Num 1800)])]))
   \<and> map_option change (parseGoogleFinanceResponse ''INFY.NS''
         (Obj [(''summary'', Obj [(''price'', Num 1800)])]) 7) = Some (Num 0)
   \<and> map_option price (parseGoogleFinanceResponse ''INFY.NS''
         (Obj [(''summary'', Obj [(''price'', Num 1800)])]) 7) = Some (Num 1800)"
  using C2_null_iff_no_shape [of "Obj [(''financials'', Obj [(''pe_ratio'', Num 21)])]" "''INFY.NS''" 7 0]
    C2_null_iff_no_shape [of Null "''INFY.NS''" 7 0]
    C2_null_iff_no_shape [of "Obj [(''summary'', Obj [(''price'', Num 1800)])]" "''INFY.NS''" 7 1800]
  by (auto simp: well_shaped_def is_block_def field_Obj_Cons field_Obj_Nil selected_shape_def
      js_or_def parse_try_nullish)

text \<open>
  C10: a falsy present field behaves like an absent one. A financials field that is 0 or
  the empty string gives the same record as a financials block without it, and the output
  field is then the one of the selected shape; a price, change or change percent of 0 in
  the detailed or summary shape gives the same record as the shape without that field;
  and a detailed shape that is present, even with no fields at all, makes the summary
  shape irrelevant.
\<close>

theorem C10_falsy_like_absent:
  "(v \<in> {Num 0, Str ''''} \<and> k \<in> {''pe_ratio'', ''market_cap'', ''revenue'', ''net_income''}
      \<and> map_of fs k = None \<longrightarrow>
      parseGoogleFinanceResponse symb (Obj ((''financials'', Obj ((k, v) # fs)) # rest)) now
        = parseGoogleFinanceResponse symb (Obj ((''financials'', Obj fs) # rest)) now)
   \<and> (truthy (selected_shape response) \<longrightarrow>
        (\<exists>r. parseGoogleFinanceResponse symb response now = Some r
          \<and> (\<not> truthy (field (field response ''financials'') ''pe_ratio'') \<longrightarrow>
                peRatio r = field (selected_shape response) ''pe_ratio'')
          \<and> (\<not> truthy (field (field response ''financials'') ''market_cap'') \<longrightarrow>
                marketCap r = field (selected_shape response) ''market_cap'')
          \<and> (\<not> truthy (field (field response ''financials'') ''revenue'') \<longrightarrow>
                revenue r = field (selected_shape response) ''revenue'')
          \<and> (\<not> truthy (field (field response ''financials'') ''net_income'') \<longrightarrow>
                earnings r = field (selected_shape response) ''earnings'')))
   \<and> (j \<in> {''price'', ''change'', ''change_percent''} \<and> sh \<in> {''knowledge_graph'', ''summary''}
        \<and> map_of ds j = None \<longrightarrow>
      parseGoogleFinanceResponse symb (Obj ((sh, Obj ((j, Num 0) # ds)) # rest')) now
        = parseGoogleFinanceResponse symb (Obj ((sh, Obj ds) # rest')) now)
   \<and> (field (Obj others) ''knowledge_graph'' = Obj kg \<longrightarrow>
      parseGoogleFinanceResponse symb (Obj ((''summary'', s) # others)) now
        = parseGoogleFinanceResponse symb (Obj others) now)"
proof (intro conjI impI)
  assume "v \<in> {Num 0, Str ''''} \<and> k \<in> {''pe_ratio'', ''market_cap'', ''revenue'', ''net_income''}
      \<and> map_of fs k = None"
  then have "\<not> truthy v" "map_of fs k = None" by auto
  then show "parseGoogleFinanceResponse symb (Obj ((''financials'', Obj ((k, v) # fs)) # rest)) now
        = parseGoogleFinanceResponse symb (Obj ((''financials'', Obj fs) # rest)) now"
    by (rule financials_falsy_same)
next
  assume t: "truthy (selected_shape response)"
  then have nn: "response \<noteq> Undefined" "response \<noteq> Null"
    by (auto simp: selected_shape_def js_or_def)
  show "\<exists>r. parseGoogleFinanceResponse symb response now = Some r
          \<and> (\<not> truthy (field (field response ''financials'') ''pe_ratio'') \<longrightarrow>
                peRatio r = field (selected_shape response) ''pe_ratio'')
          \<and> (\<not> truthy (field (field response ''financials'') ''market_cap'') \<longrightarrow>
                marketCap r = field (selected_shape response) ''market_cap'')
          \<and> (\<not> truthy (field (field response ''financials'') ''revenue'') \<longrightarrow>
                revenue r = field (selected_shape response) ''revenue'')
          \<and> (\<not> truthy (field (field response ''financials'') ''net_income'') \<longrightarrow>
                earnings r = field (selected_shape response) ''earnings'')"
    using t by (simp add: parse_closed [OF nn] js_or_def)
next
  assume "j \<in> {''price'', ''change'', ''change_percent''} \<and> sh \<in> {''knowledge_graph'', ''summary''}
        \<and> map_of ds j = None"
  then show "parseGoogleFinanceResponse symb (Obj ((sh, Obj ((j, Num 0) # ds)) # rest')) now
        = parseGoogleFinanceResponse symb (Obj ((sh, Obj ds) # rest')) now"
    by (intro shape_zero_same) simp_all
next
  assume "field (Obj others) ''knowledge_graph'' = Obj kg"
  then show "parseGoogleFinanceResponse symb (Obj ((''summary'', s) # others)) now
        = parseGoogleFinanceResponse symb (Obj others) now"
    by (rule detailed_suppresses_summary)
qed

theorem C10_falsy_like_absent_witness:
  "parseGoogleFinanceResponse ''TANLA.NS''
      (Obj [(''financials'', Obj [(''pe_ratio'', Num 0)]),
            (''knowledge_graph'', Obj [(''price'', Num 480), (''pe_ratio'', Num 31)])]) 9
     = parseGoogleFinanceResponse ''TANLA.NS''
      (Obj [(''financials'', Obj []),
            (''knowledge_graph'', Obj [(''price'', Num 480), (''pe_ratio'', Num 31)])]) 9
   \<and> map_option peRatio (parseGoogleFinanceResponse ''TANLA.NS''
      (Obj [(''financials'', Obj [(''pe_ratio'', Num 0)]),
            (''knowledge_graph'', Obj [(''price'', Num 480), (''pe_ratio'', Num 31)])]) 9)
     = Some (Num 31)
   \<and> parseGoogleFinanceResponse ''TANLA.NS''
        (Obj [(''summary'', Obj [(''change'', Num 0), (''price'', Num 480)])]) 9
     = parseGoogleFinanceResponse ''TANLA.NS''
        (Obj [(''summary'', Obj [(''price'', Num 480)])]) 9
   \<and> parseGoogleFinanceResponse ''TANLA.NS''
        (Obj [(''summary'', Obj [(''price'', Num 480)]), (''knowledge_graph'', Obj [])]) 9
     = parseGoogleFinanceResponse ''TANLA.NS'' (Obj [(''knowledge_graph'', Obj [])]) 9
   \<and> map_option price (parseGoogleFinanceResponse ''TANLA.NS''
        (Obj [(''summary'', Obj [(''price'', Num 480)]), (''knowledge_graph'', Obj [])]) 9)
     = Some (Num 0)"
proof -
  let ?r = "Obj [(''financials'', Obj [(''pe_ratio'', Num 0)]),
            (''knowledge_graph'', Obj [(''price'', Num 480), (''pe_ratio'', Num 31)])]"
  have t: "truthy (selected_shape ?r)"
    by (simp add: selected_shape_def js_or_def field_Obj_Cons)
  have f: "\<not> truthy (field (field ?r ''financials'') ''pe_ratio'')"
    "field (selected_shape ?r) ''pe_ratio'' = Num 31"
    by (simp_all add: selected_shape_def js_or_def field_Obj_Cons)
  note a = C10_falsy_like_absent [of "Num 0" "''pe_ratio''" "[]" "''TANLA.NS''"
        "[(''knowledge_graph'', Obj [(''price'', Num 480), (''pe_ratio'', Num 31)])]" 9
        ?r "''change''" "''summary''" "[(''price'', Num 480)]" "[]"
        "[(''knowledge_graph'', Obj [])]" "[]" "Obj [(''price'', Num 480)]"]
  from a t f show ?thesis
    by (simp add: parse_closed selected_shape_def js_or_def field_Obj_Cons field_Obj_Nil)
qed

section \<open>Facts about the cache and the single fetch\<close>

lemma fetch_begin_fresh:
  "cache c symb = Some e \<Longrightarrow> now - timestamp e < 15000 \<Longrightarrow> fetch_begin c now symb = Hit (data e)"
  by (simp add: fetch_begin_def CACHE_DURATION_def)

lemma fetch_begin_stale:
  "cache c symb = Some e \<Longrightarrow> \<not> now - timestamp e < 15000 \<Longrightarrow>
     fetch_begin c now symb = Pending (googleSymbol symb)"
  by (simp add: fetch_begin_def CACHE_DURATION_def)

lemma fetch_begin_absent:
  "cache c symb = None \<Longrightarrow> fetch_begin c now symb = Pending (googleSymbol symb)"
  by (simp add: fetch_begin_def)

lemma fetch_resume_cases:
  "fetch_resume c t symb lk =
     (case await_lookup lk of
        Inl e \<Rightarrow> (None, c)
      | Inr response \<Rightarrow>
          (case parseGoogleFinanceResponse symb response t of
             None \<Rightarrow> (None, c)
           | Some d \<Rightarrow> (Some d, c\<lparr>cache := (cache c)(symb \<mapsto> \<lparr>data = d, timestamp = t\<rparr>)\<rparr>)))"
  by (simp add: fetch_resume_def fetch_resume_try_def thenE_def split: sum.splits option.splits)

lemma fetch_resume_client:
  "snd (fetch_resume c t symb lk) =
     (case fst (fetch_resume c t symb lk) of
        None \<Rightarrow> c
      | Some d \<Rightarrow> c\<lparr>cache := (cache c)(symb \<mapsto> \<lparr>data = d, timestamp = t\<rparr>)\<rparr>)"
  by (simp add: fetch_resume_cases split: sum.splits option.splits)

lemma fetch_resume_result_indep:
  "fst (fetch_resume c t symb lk) = fst (fetch_resume c' t symb lk)"
  by (simp add: fetch_resume_cases split: sum.splits option.splits)

lemma fetchStockData_hit:
  "fetch_begin c now symb = Hit d \<Longrightarrow>
   fetchStockData lk now c symb = \<lparr>returned = Some d, client_after = c, queries = [], finished = now\<rparr>"
  by (simp add: fetchStockData_def)

lemma fetchStockData_miss:
  "fetch_begin c now symb = Pending q \<Longrightarrow>
   fetchStockData lk now c symb =
     \<lparr>returned = fst (fetch_resume c (now + int (latency lk)) symb lk),
      client_after = snd (fetch_resume c (now + int (latency lk)) symb lk),
      queries = [q], finished = now + int (latency lk)\<rparr>"
  by (simp add: fetchStockData_def)

lemma fetch_begin_Hit_iff:
  "fetch_begin c now symb = Hit d \<longleftrightarrow>
     (\<exists>e. cache c symb = Some e \<and> now - timestamp e < 15000 \<and> d = data e)"
  by (auto simp: fetch_begin_def CACHE_DURATION_def split: option.splits)

lemma fetch_begin_Pending: "fetch_begin c now symb = Pending q \<Longrightarrow> q = googleSymbol symb"
  by (auto simp: fetch_begin_def split: option.splits if_splits)

section \<open>Claims about the cache and the single fetch\<close>

text \<open>
  C3: with an entry for the symbol captured at \<open>T\<close>, \<^verbatim>\<open>fetchStockData\<close> at clock reading
  \<open>now\<close> returns the cached record and sends nothing upstream when \<open>now - T < 15000\<close>,
  and when \<open>now - T \<ge> 15000\<close> it sends the request and returns what the reply yields;
  \<^verbatim>\<open>getCachedData\<close> returns the cached record iff \<open>now - T < 30000\<close>, twice the strict
  duration, and null otherwise, without touching the client or the upstream.
\<close>

theorem C3_ttl_reads:
  assumes "cache c symb = Some e"
  shows "(now - timestamp e < 15000 \<longrightarrow>
            returned (fetchStockData lk now c symb) = Some (data e)
          \<and> queries (fetchStockData lk now c symb) = [])
       \<and> (now - timestamp e \<ge> 15000 \<longrightarrow>
            queries (fetchStockData lk now c symb) = [googleSymbol symb]
          \<and> returned (fetchStockData lk now c symb)
              = fst (fetch_resume c (now + int (latency lk)) symb lk))
       \<and> fst (getCachedData now c symb)
            = (if now - timestamp e < 30000 then Some (data e) else None)
       \<and> snd (getCachedData now c symb) = c
       \<and> CACHE_DURATION = 15000 \<and> CACHE_DURATION * 2 = 30000"
  using assms
  by (simp add: fetchStockData_def fetch_begin_def getCachedData_def CACHE_DURATION_def)

theorem C3_ttl_reads_witness:
  "cache sample_client ''INFY.NS'' = Some \<lparr>data = sample_quote, timestamp = 0\<rparr>
   \<and> returned (fetchStockData Throws 14999 sample_client ''INFY.NS'') = Some sample_quote
   \<and> queries (fetchStockData Throws 14999 sample_client ''INFY.NS'') = []
   \<and> queries (fetchStockData Throws 15000 sample_client ''INFY.NS'') = [''INFY:NSE'']
   \<and> fst (getCachedData 29999 sample_client ''INFY.NS'') = Some sample_quote
   \<and> fst (getCachedData 30000 sample_client ''INFY.NS'') = None"
proof -
  have e: "cache sample_client ''INFY.NS'' = Some \<lparr>data = sample_quote, timestamp = 0\<rparr>"
    by (simp add: sample_client_def)
  have g: "googleSymbol ''INFY.NS'' = ''INFY:NSE''"
    by (simp add: googleSymbol_def STOCK_SYMBOL_MAPPINGS_def)
  show ?thesis
    using e g C3_ttl_reads [OF e, of 14999 Throws] C3_ttl_reads [OF e, of 15000 Throws]
      C3_ttl_reads [OF e, of 29999 Throws] C3_ttl_reads [OF e, of 30000 Throws]
    by simp
qed

text \<open>
  C4, as the specification words it, fails on the code: a call that succeeds because it is
  served from an entry captured at 0 does not renew that entry, so a second call one time
  unit later, at 15000, finds the entry stale and goes upstream (and here gets nothing).
\<close>

theorem C4_second_call_counterexample:
  "returned (fetchStockData Throws 14999 sample_client ''INFY.NS'') = Some sample_quote
   \<and> finished (fetchStockData Throws 14999 sample_client ''INFY.NS'') = 14999
   \<and> queries (fetchStockData Throws 15000
        (client_after (fetchStockData Throws 14999 sample_client ''INFY.NS'')) ''INFY.NS'')
       = [''INFY:NSE'']
   \<and> returned (fetchStockData Throws 15000
        (client_after (fetchStockData Throws 14999 sample_client ''INFY.NS'')) ''INFY.NS'')
       = None"
proof -
  have e: "cache sample_client ''INFY.NS'' = Some \<lparr>data = sample_quote, timestamp = 0\<rparr>"
    by (simp add: sample_client_def)
  have g: "googleSymbol ''INFY.NS'' = ''INFY:NSE''"
    by (simp add: googleSymbol_def STOCK_SYMBOL_MAPPINGS_def)
  have h: "fetch_begin sample_client 14999 ''INFY.NS'' = Hit sample_quote"
    using fetch_begin_fresh [OF e, of 14999] by simp
  have p: "fetch_begin sample_client 15000 ''INFY.NS'' = Pending ''INFY:NSE''"
    using fetch_begin_stale [OF e, of 15000] g by simp
  show ?thesis
    by (simp add: fetchStockData_hit [OF h] fetchStockData_miss [OF p] fetch_resume_cases)
qed

text \<open>
  C4, amended: after a call that returns a record \<open>d\<close>, the cache holds \<open>d\<close> for the
  symbol with a capture time \<open>T\<close>, which is the completion time of that call if it went
  upstream and the unchanged capture time of the serving entry if it was a cache hit. Any
  second call at a clock reading \<open>t2\<close> with \<open>t2 - T < 15000\<close> sends nothing upstream and
  returns \<open>d\<close>; if the first call went upstream, the two calls together send exactly one
  request.
\<close>

theorem C4_idempotent_within_ttl:
  assumes "returned (fetchStockData lk1 t1 c symb) = Some d"
  shows "\<exists>e. cache (client_after (fetchStockData lk1 t1 c symb)) symb = Some e
           \<and> data e = d
           \<and> (queries (fetchStockData lk1 t1 c symb) = [] \<longrightarrow> cache c symb = Some e)
           \<and> (queries (fetchStockData lk1 t1 c symb) \<noteq> [] \<longrightarrow>
                timestamp e = finished (fetchStockData lk1 t1 c symb))
           \<and> (\<forall>t2 lk2. t2 - timestamp e < 15000 \<longrightarrow>
                queries (fetchStockData lk2 t2 (client_after (fetchStockData lk1 t1 c symb)) symb) = []
              \<and> returned (fetchStockData lk2 t2 (client_after (fetchStockData lk1 t1 c symb)) symb)
                  = Some d
              \<and> (queries (fetchStockData lk1 t1 c symb) \<noteq> [] \<longrightarrow>
                   length (queries (fetchStockData lk1 t1 c symb)
                     @ queries (fetchStockData lk2 t2
                          (client_after (fetchStockData lk1 t1 c symb)) symb)) = 1))"
proof (cases "fetch_begin c t1 symb")
  case (Hit d')
  then obtain e where e: "cache c symb = Some e" "t1 - timestamp e < 15000" "d' = data e"
    by (auto simp: fetch_begin_Hit_iff)
  from assms Hit have d: "d = d'" by (simp add: fetchStockData_hit)
  have "fetch_begin c t2 symb = Hit d" if "t2 - timestamp e < 15000" for t2
    using that e d by (auto simp: fetch_begin_Hit_iff)
  then show ?thesis
    using e d by (auto simp: fetchStockData_hit [OF Hit] fetchStockData_hit)
next
  case (Pending q)
  let ?t = "t1 + int (latency lk1)"
  let ?c' = "c\<lparr>cache := (cache c)(symb \<mapsto> \<lparr>data = d, timestamp = ?t\<rparr>)\<rparr>"
  from assms Pending have r: "fst (fetch_resume c ?t symb lk1) = Some d"
    by (simp add: fetchStockData_miss)
  then have c': "snd (fetch_resume c ?t symb lk1) = ?c'"
    by (simp add: fetch_resume_client)
  have f: "fetchStockData lk1 t1 c symb =
     \<lparr>returned = Some d, client_after = ?c', queries = [q], finished = ?t\<rparr>"
    by (simp add: fetchStockData_miss [OF Pending] r c')
  have "fetch_begin ?c' t2 symb = Hit d" if "t2 - ?t < 15000" for t2
    using that by (auto simp: fetch_begin_Hit_iff)
  then show ?thesis
    unfolding f by (auto simp: fetchStockData_hit)
qed

theorem C4_idempotent_within_ttl_witness:
  "returned (fetchStockData (Delivers sample_payload 120) 1000 empty_client ''HDFCBANK.NS'')
     = Some \<lparr> symbol = ''HDFCBANK.NS'', price = Num 1800, change = Num 10,
              changePercent = Num 0.56, peRatio = Undefined, marketCap = Undefined,
              earnings = Undefined, revenue = Undefined, lastUpdated = 1120 \<rparr>
   \<and> queries (fetchStockData (Delivers sample_payload 120) 1000 empty_client ''HDFCBANK.NS'')
       = [''HDFCBANK:NSE'']
   \<and> queries (fetchStockData Throws 16119
        (client_after (fetchStockData (Delivers sample_payload 120) 1000 empty_client ''HDFCBANK.NS''))
        ''HDFCBANK.NS'') = []
   \<and> returned (fetchStockData Throws 16119
        (client_after (fetchStockData (Delivers sample_payload 120) 1000 empty_client ''HDFCBANK.NS''))
        ''HDFCBANK.NS'')
     = Some \<lparr> symbol = ''HDFCBANK.NS'', price = Num 1800, change = Num 10,
              changePercent = Num 0.56, peRatio = Undefined, marketCap = Undefined,
              earnings = Undefined, revenue = Undefined, lastUpdated = 1120 \<rparr>"
proof -
  let ?d = "\<lparr> symbol = ''HDFCBANK.NS'', price = Num 1800, change = Num 10,
              changePercent = Num 0.56, peRatio = Undefined, marketCap = Undefined,
              earnings = Undefined, revenue = Undefined, lastUpdated = 1120 \<rparr>"
  let ?first = "fetchStockData (Delivers sample_payload 120) 1000 empty_client ''HDFCBANK.NS''"
  have p: "fetch_begin empty_client 1000 ''HDFCBANK.NS'' = Pending ''HDFCBANK:NSE''"
    by (simp add: fetch_begin_def empty_client_def googleSymbol_def STOCK_SYMBOL_MAPPINGS_def)
  have n: "parseGoogleFinanceResponse ''HDFCBANK.NS'' sample_payload 1120 = Some ?d"
    by (simp add: sample_payload_def parse_closed selected_shape_def js_or_def field_Obj_Cons
        field_Obj_Nil)
  have t: "truthy sample_payload" by (simp add: sample_payload_def)
  have r: "returned ?first = Some ?d" "queries ?first = [''HDFCBANK:NSE'']" "finished ?first = 1120"
    by (simp_all add: fetchStockData_miss [OF p] fetch_resume_cases t n)
  from C4_idempotent_within_ttl [OF r(1)] r
  show ?thesis by auto
qed

text \<open>
  C9: a \<^verbatim>\<open>fetchStockData\<close> call that is served from the cache, or that returns null,
  leaves the client exactly as it was; a call that goes upstream and returns a record
  (which is then the normalization of a delivered payload) overwrites the entry of its
  own symbol with that record and its completion time; in every case the entries of all
  other symbols are untouched; \<^verbatim>\<open>getCachedData\<close> leaves the client unchanged and
  \<^verbatim>\<open>clearCache\<close> empties the cache.
\<close>

theorem C9_cache_frame:
  "(queries (fetchStockData lk now c symb) = [] \<longrightarrow>
      client_after (fetchStockData lk now c symb) = c)
   \<and> (returned (fetchStockData lk now c symb) = None \<longrightarrow>
      client_after (fetchStockData lk now c symb) = c)
   \<and> (\<forall>d. queries (fetchStockData lk now c symb) \<noteq> []
          \<and> returned (fetchStockData lk now c symb) = Some d \<longrightarrow>
        client_after (fetchStockData lk now c symb)
          = c\<lparr>cache := (cache c)(symb \<mapsto>
                \<lparr>data = d, timestamp = finished (fetchStockData lk now c symb)\<rparr>)\<rparr>
        \<and> (\<exists>j l. lk = Delivers j l \<and> truthy j
              \<and> parseGoogleFinanceResponse symb j (finished (fetchStockData lk now c symb)) = Some d))
   \<and> (\<forall>other. other \<noteq> symb \<longrightarrow>
        cache (client_after (fetchStockData lk now c symb)) other = cache c other)
   \<and> snd (getCachedData now c symb) = c
   \<and> cache (clearCache c) = Map.empty"
proof (cases "fetch_begin c now symb")
  case (Hit d)
  show ?thesis
    by (simp add: fetchStockData_hit [OF Hit] getCachedData_def clearCache_def
        split: option.splits)
next
  case (Pending q)
  have g: "snd (getCachedData now c symb) = c"
    by (simp add: getCachedData_def split: option.splits)
  have lkd: "\<exists>j l. lk = Delivers j l \<and> truthy j \<and> parseGoogleFinanceResponse symb j t = Some d"
    if "fst (fetch_resume c t symb lk) = Some d" for t d
    using that by (cases lk) (auto simp: fetch_resume_cases split: if_splits option.splits)
  show ?thesis
    using lkd
    by (auto simp: fetchStockData_miss [OF Pending] fetch_resume_client g clearCache_def
        split: option.splits)
qed

theorem C9_cache_frame_witness:
  "queries (fetchStockData Throws 14999 sample_client ''INFY.NS'') = []
   \<and> client_after (fetchStockData Throws 14999 sample_client ''INFY.NS'') = sample_client
   \<and> returned (fetchStockData Throws 15000 sample_client ''INFY.NS'') = None
   \<and> client_after (fetchStockData Throws 15000 sample_client ''INFY.NS'') = sample_client
   \<and> returned (fetchStockData (Delivers (Obj []) 80) 15000 sample_client ''INFY.NS'') = None
   \<and> client_after (fetchStockData (Delivers (Obj []) 80) 15000 sample_client ''INFY.NS'') = sample_client
   \<and> queries (fetchStockData (Delivers sample_payload 80) 15000 sample_client ''INFY.NS'') \<noteq> []
   \<and> cache (client_after (fetchStockData (Delivers sample_payload 80) 15000 sample_client ''INFY.NS''))
        ''INFY.NS''
      = Some \<lparr>data = \<lparr> symbol = ''INFY.NS'', price = Num 1800, change = Num 10,
              changePercent = Num 0.56, peRatio = Undefined, marketCap = Undefined,
              earnings = Undefined, revenue = Undefined, lastUpdated = 15080 \<rparr>,
              timestamp = 15080\<rparr>
   \<and> cache (client_after (fetchStockData (Delivers sample_payload 80) 15000 sample_client ''INFY.NS''))
        ''TANLA.NS'' = cache sample_client ''TANLA.NS''"
proof -
  let ?d = "\<lparr> symbol = ''INFY.NS'', price = Num 1800, change = Num 10,
              changePercent = Num 0.56, peRatio = Undefined, marketCap = Undefined,
              earnings = Undefined, revenue = Undefined, lastUpdated = 15080 \<rparr>"
  have e: "cache sample_client ''INFY.NS'' = Some \<lparr>data = sample_quote, timestamp = 0\<rparr>"
    by (simp add: sample_client_def)
  have h: "fetch_begin sample_client 14999 ''INFY.NS'' = Hit sample_quote"
    using fetch_begin_fresh [OF e, of 14999] by simp
  have p: "fetch_begin sample_client 15000 ''INFY.NS'' = Pending (googleSymbol ''INFY.NS'')"
    using fetch_begin_stale [OF e, of 15000] by simp
  have n: "parseGoogleFinanceResponse ''INFY.NS'' sample_payload 15080 = Some ?d"
    by (simp add: sample_payload_def parse_closed selected_shape_def js_or_def field_Obj_Cons
        field_Obj_Nil)
  have n0: "parseGoogleFinanceResponse ''INFY.NS'' (Obj []) 15080 = None"
    by (simp add: parse_closed selected_shape_def js_or_def field_Obj_Nil)
  have t: "truthy sample_payload" by (simp add: sample_payload_def)
  have q: "queries (fetchStockData Throws 14999 sample_client ''INFY.NS'') = []"
     "returned (fetchStockData Throws 15000 sample_client ''INFY.NS'') = None"
     "returned (fetchStockData (Delivers (Obj []) 80) 15000 sample_client ''INFY.NS'') = None"
     "queries (fetchStockData (Delivers sample_payload 80) 15000 sample_client ''INFY.NS'') \<noteq> []"
     "returned (fetchStockData (Delivers sample_payload 80) 15000 sample_client ''INFY.NS'') = Some ?d"
     "finished (fetchStockData (Delivers sample_payload 80) 15000 sample_client ''INFY.NS'') = 15080"
    by (simp_all add: fetchStockData_hit [OF h] fetchStockData_miss [OF p] fetch_resume_cases n n0 t)
  show ?thesis
    using q C9_cache_frame [of Throws 14999 sample_client "''INFY.NS''"]
      C9_cache_frame [of Throws 15000 sample_client "''INFY.NS''"]
      C9_cache_frame [of "Delivers (Obj []) 80" 15000 sample_client "''INFY.NS''"]
      C9_cache_frame [of "Delivers sample_payload 80" 15000 sample_client "''INFY.NS''"]
    by simp
qed

section \<open>Facts about the fallback synthesizer\<close>














section \<open>Claims about the fallback synthesizer\<close>



text \<open>
  The change that enters the change percent is the unrounded one. Recomputed from the
  returned, already rounded change, the percentage can come out differently.
\<close>

lemma fallback_percent_uses_unrounded_change:
  "change (getFallbackStockData (steady 0.5078) 0 ''EASEMYTRIP.NS'') = Num 0.01
   \<and> changePercent (getFallbackStockData (steady 0.5078) 0 ''EASEMYTRIP.NS'') = Num 0.04
   \<and> Math_round (0.01 / basePrice ''EASEMYTRIP.NS'' * 100 * 100) / 100 = 0.03"
proof -
  have b: "basePrice ''EASEMYTRIP.NS'' = 38"
    by (simp add: basePrice_def basePrices_def)
  have n: "newPrice (steady 0.5078) ''EASEMYTRIP.NS'' = 38 + 1.9 * 0.0078"
    by (simp add: newPrice_def b trend_def randomComponent_def steady_def)
  show ?thesis
    unfolding getFallbackStockData_def b n by (simp add: Math_round_def)
qed




section \<open>Facts about the batched fetch\<close>



















lemma fetch_loop_unfold:
  "i < length symbols \<Longrightarrow>
   fetch_loop upstream symbols i st =
     fetch_loop upstream symbols (i + batchSize)
       (if i + batchSize < length symbols
        then between_batches (run_batch upstream i (take batchSize (drop i symbols)) st)
        else run_batch upstream i (take batchSize (drop i symbols)) st)"
  by (subst fetch_loop.simps) simp

lemma fetch_loop_done: "\<not> i < length symbols \<Longrightarrow> fetch_loop upstream symbols i st = st"
  by (subst fetch_loop.simps) simp








lemmas run_eval = fetchMultipleStocks_def fetch_loop_unfold fetch_loop_done batchSize_def
  run_batch_def between_batches_def start_task_def complete_def settles_def pending_queries_def
  fetch_begin_def fetch_resume_cases Let_def empty_client_def upt_rec
  sample_payload_def parse_closed selected_shape_def js_or_def field_Obj_Cons field_Obj_Nil


lemma quick_run_delays:
  "delays (fetchMultipleStocks quick_upstream 0 empty_client [''INFY.NS'', ''TANLA.NS'', ''DMART.NS''])
     = [300, 300, 300]"
  by (simp add: run_eval quick_upstream_def)






section \<open>Claims about the batched fetch\<close>






end
